theory Spec2Isabelle
  imports Main "HOL-Library.AList"
begin

section \<open>Billing logic of gittip: a shallow embedding of \<^verbatim>\<open>gittip/billing/__init__.py\<close>\<close>

text \<open>
  The module talks to two collaborators: the Balanced payment gateway (over HTTP) and the
  participants table of the local database. Both are made explicit as components of a
  \<open>world\<close> value that every operation takes and returns. Each gateway request and each
  database statement is appended to a trace, so that the number and order of the effects
  of a call can be stated. Python exceptions are values of type \<open>exn\<close>; a computation
  returns \<open>Inl e\<close> when it raises \<open>e\<close>.
\<close>

subsection \<open>Python values and exceptions\<close>

text \<open>
  The values the module handles. \<open>PyStr\<close> is a byte string (\<^verbatim>\<open>str\<close>), \<open>PyUnicode\<close> a
  \<^verbatim>\<open>unicode\<close>; the module is Python 2 and its type checks tell the two apart.
\<close>

datatype pyval = PyNone | PyBool bool | PyInt int | PyStr string | PyUnicode string

datatype pytype = TNone | TBool | TInt | TStr | TUnicode

fun type_of :: "pyval \<Rightarrow> pytype" where
  "type_of PyNone = TNone"
| "type_of (PyBool b) = TBool"
| "type_of (PyInt i) = TInt"
| "type_of (PyStr s) = TStr"
| "type_of (PyUnicode s) = TUnicode"

text \<open>Truth value of an object, as \<^verbatim>\<open>if out:\<close> and \<^verbatim>\<open>month and year\<close> test it.\<close>

fun truthy :: "pyval \<Rightarrow> bool" where
  "truthy PyNone = False"
| "truthy (PyBool b) = b"
| "truthy (PyInt i) = (i \<noteq> 0)"
| "truthy (PyStr s) = (s \<noteq> [])"
| "truthy (PyUnicode s) = (s \<noteq> [])"

text \<open>The text of a value that a type check has established to be a unicode.\<close>

fun unicode_of :: "pyval \<Rightarrow> string" where
  "unicode_of (PyUnicode s) = s"
| "unicode_of _ = []"

datatype exn =
    TypeError
  | IndexError
  | NoResultFound
  | MultipleResultsFound
  | HTTPError pyval
  | UnicodeDecodeError
  | OtherError string

text \<open>
  \<^verbatim>\<open>aspen.utils.typecheck(obj1, type1, obj2, type2, ...)\<close>: every object must have one of
  the types expected for it (a single type or a tuple of types, \<^verbatim>\<open>None\<close> standing for the
  type of \<^verbatim>\<open>None\<close>); the first object that has not raises \<^verbatim>\<open>TypeError\<close>.
\<close>

fun typecheck :: "(pyval \<times> pytype list) list \<Rightarrow> exn + unit" where
  "typecheck [] = Inr ()"
| "typecheck ((obj, expected) # checks) =
     (if type_of obj \<in> set expected then typecheck checks else Inl TypeError)"

subsection \<open>Decimal formatting\<close>

fun string_of_nat :: "nat \<Rightarrow> string" where
  "string_of_nat n =
     (if n < 10 then [''0123456789'' ! n]
      else string_of_nat (n div 10) @ [''0123456789'' ! (n mod 10)])"

declare string_of_nat.simps [simp del]

definition string_of_int :: "int \<Rightarrow> string" where
  "string_of_int i = (if i < 0 then CHR ''-'' # string_of_nat (nat (- i)) else string_of_nat (nat i))"

text \<open>
  \<^verbatim>\<open>"%d/%d" % (month, year)\<close>: an integer is printed in decimal, a bool as the integer it
  is, and anything that is not a number raises \<^verbatim>\<open>TypeError\<close>.
\<close>

fun format_d :: "pyval \<Rightarrow> exn + string" where
  "format_d (PyInt i) = Inr (string_of_int i)"
| "format_d (PyBool b) = Inr (if b then ''1'' else ''0'')"
| "format_d _ = Inl TypeError"

definition format_d_d :: "pyval \<Rightarrow> pyval \<Rightarrow> exn + pyval" where
  "format_d_d month year =
     (case format_d month of
        Inl e \<Rightarrow> Inl e
      | Inr m \<Rightarrow> (case format_d year of
                   Inl e \<Rightarrow> Inl e
                 | Inr y \<Rightarrow> Inr (PyUnicode (m @ ''/'' @ y))))"

text \<open>
  \<^verbatim>\<open>"************" + out\<close>: a unicode can only be concatenated with a string; a byte
  string is decoded as ASCII first, which raises \<^verbatim>\<open>UnicodeDecodeError\<close> on a byte above 127.
\<close>

fun unicode_add :: "string \<Rightarrow> pyval \<Rightarrow> exn + pyval" where
  "unicode_add s (PyUnicode t) = Inr (PyUnicode (s @ t))"
| "unicode_add s (PyStr t) =
     (if list_all (\<lambda>c. (of_char c :: nat) < 128) t then Inr (PyUnicode (s @ t))
      else Inl UnicodeDecodeError)"
| "unicode_add s _ = Inl TypeError"

subsection \<open>The gateway and the database\<close>

text \<open>
  A \<^verbatim>\<open>balanced.Account\<close> object. \<open>card_uri\<close> is the attribute that \<^verbatim>\<open>associate\<close> sets
  before saving; the gateway never sends it back.
\<close>

record balanced_account =
  uri :: string
  email_address :: string
  meta :: "(string \<times> pyval) list"
  card_uri :: "string option"

text \<open>
  A card of the gateway. \<open>c_account\<close> is the account the card is attached to, \<open>attrs\<close>
  holds the remaining attributes by name (\<^verbatim>\<open>last_four\<close>, \<^verbatim>\<open>expiration_month\<close>,
  \<^verbatim>\<open>expiration_year\<close>, ...); an attribute may be missing.
\<close>

record card =
  c_uri :: string
  c_account :: "string option"
  is_valid :: bool
  created_at :: int
  attrs :: "(string \<times> pyval) list"

text \<open>A row of the participants table, restricted to the columns the module writes.\<close>

record participant =
  pid :: string
  balanced_account_uri :: "string option"
  last_bill_result :: "string option"

text \<open>The three statements the module executes, with their parameters in source order.\<close>

datatype sql =
    CUSTOMER string string
  | STANDING string string
  | CLEAR string

datatype gw_request =
    Query string
  | Create string
  | Find string
  | SaveAccount balanced_account
  | ListCards string
  | SaveCard card

datatype event = Gateway gw_request | Db sql

text \<open>
  The gateway is an external service. Its state is the accounts and the cards it holds;
  a request that it answers is answered from that state, as described with each request
  below. Whether it answers is not for the module to decide: any request may fail, with
  any exception. The properties below hold for every state and every such behaviour.

  \<open>gw_replies\<close> is what the gateway will do beyond its state: the n-th entry says whether
  the n-th request from now fails by itself (\<open>Some e\<close>: transport failure, declined card,
  ...) or is answered from the state (\<open>None\<close>). Past the end of the list every request is
  answered from the state.
\<close>

record world =
  gw_accounts :: "balanced_account list"
  gw_cards :: "card list"
  gw_replies :: "exn option list"
  participants :: "participant list"
  trace :: "event list"

definition emitted :: "world \<Rightarrow> world \<Rightarrow> event list" where
  "emitted w w' = drop (length (trace w)) (trace w')"

definition gateway :: "gw_request \<Rightarrow> world \<Rightarrow> exn option \<times> world" where
  "gateway rq w =
     (case gw_replies w of
        [] \<Rightarrow> (None, w\<lparr>trace := trace w @ [Gateway rq]\<rparr>)
      | r # rs \<Rightarrow> (r, w\<lparr>gw_replies := rs, trace := trace w @ [Gateway rq]\<rparr>))"

text \<open>\<^verbatim>\<open>balanced.Account.find(uri)\<close>\<close>

definition balanced_Account_find :: "string \<Rightarrow> world \<Rightarrow> (exn + balanced_account) \<times> world" where
  "balanced_Account_find u w =
     (case gateway (Find u) w of
        (Some e, w') \<Rightarrow> (Inl e, w')
      | (None, w') \<Rightarrow>
          (case filter (\<lambda>a. uri a = u) (gw_accounts w') of
             [] \<Rightarrow> (Inl (HTTPError (PyUnicode ''Not Found'')), w')
           | a # _ \<Rightarrow> (Inr (a\<lparr>card_uri := None\<rparr>), w')))"

text \<open>\<^verbatim>\<open>balanced.Account.query.filter(email_address=email_address).one()\<close>\<close>

definition balanced_Account_query_one :: "string \<Rightarrow> world \<Rightarrow> (exn + balanced_account) \<times> world" where
  "balanced_Account_query_one email w =
     (case gateway (Query email) w of
        (Some e, w') \<Rightarrow> (Inl e, w')
      | (None, w') \<Rightarrow>
          (case filter (\<lambda>a. email_address a = email) (gw_accounts w') of
             [] \<Rightarrow> (Inl NoResultFound, w')
           | [a] \<Rightarrow> (Inr (a\<lparr>card_uri := None\<rparr>), w')
           | _ \<Rightarrow> (Inl MultipleResultsFound, w')))"

text \<open>\<^verbatim>\<open>balanced.Account(email_address=email_address).save()\<close>: the gateway names the account.\<close>

definition balanced_Account_create :: "string \<Rightarrow> world \<Rightarrow> (exn + balanced_account) \<times> world" where
  "balanced_Account_create email w =
     (case gateway (Create email) w of
        (Some e, w') \<Rightarrow> (Inl e, w')
      | (None, w') \<Rightarrow>
          (let a = \<lparr>uri = ''/v1/accounts/'' @ string_of_nat (length (gw_accounts w')),
                    email_address = email, meta = [], card_uri = None\<rparr>
           in (Inr a, w'\<lparr>gw_accounts := gw_accounts w' @ [a]\<rparr>)))"

text \<open>
  \<^verbatim>\<open>customer.save()\<close> on an account the gateway knows: the gateway takes the object's
  attributes over and, when \<open>card_uri\<close> is set, attaches that card to the account.
\<close>

definition balanced_Account_save :: "balanced_account \<Rightarrow> world \<Rightarrow> (exn + balanced_account) \<times> world" where
  "balanced_Account_save a w =
     (case gateway (SaveAccount a) w of
        (Some e, w') \<Rightarrow> (Inl e, w')
      | (None, w') \<Rightarrow>
          (Inr a,
           w'\<lparr>gw_accounts := map (\<lambda>b. if uri b = uri a then a\<lparr>card_uri := None\<rparr> else b) (gw_accounts w'),
              gw_cards := (case card_uri a of
                             None \<Rightarrow> gw_cards w'
                           | Some c \<Rightarrow> map (\<lambda>d. if c_uri d = c then d\<lparr>c_account := Some (uri a)\<rparr> else d)
                                         (gw_cards w'))\<rparr>))"

text \<open>\<^verbatim>\<open>customer.cards\<close>: the cards attached to the account, in the gateway's order.\<close>

definition balanced_Account_cards :: "balanced_account \<Rightarrow> world \<Rightarrow> (exn + card list) \<times> world" where
  "balanced_Account_cards a w =
     (case gateway (ListCards (uri a)) w of
        (Some e, w') \<Rightarrow> (Inl e, w')
      | (None, w') \<Rightarrow> (Inr (filter (\<lambda>d. c_account d = Some (uri a)) (gw_cards w')), w'))"

text \<open>\<^verbatim>\<open>card.save()\<close>\<close>

definition balanced_Card_save :: "card \<Rightarrow> world \<Rightarrow> (exn + unit) \<times> world" where
  "balanced_Card_save c w =
     (case gateway (SaveCard c) w of
        (Some e, w') \<Rightarrow> (Inl e, w')
      | (None, w') \<Rightarrow>
          (Inr (), w'\<lparr>gw_cards := map (\<lambda>d. if c_uri d = c_uri c then c else d) (gw_cards w')\<rparr>))"

text \<open>
  Modelled from the spec: \<^verbatim>\<open>gittip.db.execute\<close> is not among the sources. The spec gives
  the store writes as parameterized updates by participant id key:
  \<^verbatim>\<open>SET billing_account_ref = <ref> WHERE id = <id>\<close>,
  \<^verbatim>\<open>SET last_bill_result = <msg> WHERE id = <id>\<close> and
  \<^verbatim>\<open>SET billing_account_ref = NULL, last_bill_result = NULL WHERE id = <id>\<close>.
  The statements themselves are the three of the source.
\<close>

fun run_update :: "sql \<Rightarrow> participant \<Rightarrow> participant" where
  "run_update (CUSTOMER u i) p = (if pid p = i then p\<lparr>balanced_account_uri := Some u\<rparr> else p)"
| "run_update (STANDING r i) p = (if pid p = i then p\<lparr>last_bill_result := Some r\<rparr> else p)"
| "run_update (CLEAR i) p =
     (if pid p = i then p\<lparr>balanced_account_uri := None, last_bill_result := None\<rparr> else p)"

definition db_execute :: "sql \<Rightarrow> world \<Rightarrow> world" where
  "db_execute q w = w\<lparr>participants := map (run_update q) (participants w), trace := trace w @ [Db q]\<rparr>"

subsection \<open>associate\<close>

text \<open>The first half of \<^verbatim>\<open>associate\<close>: "Load or create a Balanced Account".\<close>

definition load_or_create :: "string \<Rightarrow> pyval \<Rightarrow> world \<Rightarrow> (exn + balanced_account) \<times> world" where
  "load_or_create participant_id account_uri w =
     (let email_address = participant_id @ ''@gittip.com'' in
      if account_uri = PyNone then
        (case (case balanced_Account_query_one email_address w of
                 (Inl e, w1) \<Rightarrow>
                   if e = NoResultFound then balanced_Account_create email_address w1
                   else (Inl e, w1)
               | (Inr customer, w1) \<Rightarrow> (Inr customer, w1)) of
           (Inl e, w2) \<Rightarrow> (Inl e, w2)
         | (Inr customer, w2) \<Rightarrow>
             balanced_Account_save
               (customer\<lparr>meta := AList.update ''participant_id'' (PyUnicode participant_id) (meta customer)\<rparr>)
               (db_execute (CUSTOMER (uri customer) participant_id) w2))
      else balanced_Account_find (unicode_of account_uri) w)"

text \<open>The second half: "Associate the card with the customer".\<close>

definition associate_card :: "string \<Rightarrow> balanced_account \<Rightarrow> string \<Rightarrow> world \<Rightarrow> (exn + pyval) \<times> world" where
  "associate_card participant_id customer tok w =
     (case balanced_Account_save (customer\<lparr>card_uri := Some tok\<rparr>) w of
        (Inl e, w1) \<Rightarrow>
          (case e of
             HTTPError message \<Rightarrow>
               (case typecheck [(message, [TUnicode])] of
                  Inl e' \<Rightarrow> (Inl e', w1)
                | Inr _ \<Rightarrow> (Inr message, db_execute (STANDING (unicode_of message) participant_id) w1))
           | _ \<Rightarrow> (Inl e, w1))
      | (Inr _, w1) \<Rightarrow> (Inr (PyUnicode []), db_execute (STANDING [] participant_id) w1))"

definition associate :: "pyval \<Rightarrow> pyval \<Rightarrow> pyval \<Rightarrow> world \<Rightarrow> (exn + pyval) \<times> world" where
  "associate participant_id account_uri tok w =
     (case typecheck [(participant_id, [TUnicode]), (account_uri, [TUnicode, TNone]), (tok, [TUnicode])] of
        Inl e \<Rightarrow> (Inl e, w)
      | Inr _ \<Rightarrow>
          (case load_or_create (unicode_of participant_id) account_uri w of
             (Inl e, w1) \<Rightarrow> (Inl e, w1)
           | (Inr customer, w1) \<Rightarrow>
               associate_card (unicode_of participant_id) customer (unicode_of tok) w1))"

subsection \<open>clear\<close>

text \<open>The loop of \<^verbatim>\<open>clear\<close> over the cards of the account.\<close>

fun invalidate_cards :: "card list \<Rightarrow> world \<Rightarrow> (exn + unit) \<times> world" where
  "invalidate_cards [] w = (Inr (), w)"
| "invalidate_cards (c # cs) w =
     (if is_valid c then
        (case balanced_Card_save (c\<lparr>is_valid := False\<rparr>) w of
           (Inl e, w') \<Rightarrow> (Inl e, w')
         | (Inr _, w') \<Rightarrow> invalidate_cards cs w')
      else invalidate_cards cs w)"

definition clear :: "pyval \<Rightarrow> pyval \<Rightarrow> world \<Rightarrow> (exn + unit) \<times> world" where
  "clear participant_id account_uri w =
     (case typecheck [(participant_id, [TUnicode]), (account_uri, [TUnicode])] of
        Inl e \<Rightarrow> (Inl e, w)
      | Inr _ \<Rightarrow>
          (case balanced_Account_find (unicode_of account_uri) w of
             (Inl e, w1) \<Rightarrow> (Inl e, w1)
           | (Inr customer, w1) \<Rightarrow>
               (case balanced_Account_cards customer w1 of
                  (Inl e, w2) \<Rightarrow> (Inl e, w2)
                | (Inr cards, w2) \<Rightarrow>
                    (case invalidate_cards cards w2 of
                       (Inl e, w3) \<Rightarrow> (Inl e, w3)
                     | (Inr _, w3) \<Rightarrow> (Inr (), db_execute (CLEAR (unicode_of participant_id)) w3)))))"

subsection \<open>Account: the dict-like wrapper\<close>

record Account =
  p_account :: "balanced_account option"

text \<open>\<^verbatim>\<open>Account.__init__\<close>\<close>

definition Account_init :: "string option \<Rightarrow> world \<Rightarrow> (exn + Account) \<times> world" where
  "Account_init account_uri w =
     (case account_uri of
        None \<Rightarrow> (Inr \<lparr>p_account = None\<rparr>, w)
      | Some u \<Rightarrow>
          (case balanced_Account_find u w of
             (Inl e, w') \<Rightarrow> (Inl e, w')
           | (Inr a, w') \<Rightarrow> (Inr \<lparr>p_account = Some a\<rparr>, w')))"

text \<open>\<^verbatim>\<open>getattr(card, name, "")\<close>\<close>

definition getattr_card :: "card \<Rightarrow> string \<Rightarrow> pyval" where
  "getattr_card c name =
     (if name = ''uri'' then PyUnicode (c_uri c)
      else if name = ''is_valid'' then PyBool (is_valid c)
      else if name = ''created_at'' then PyInt (created_at c)
      else (case map_of (attrs c) name of None \<Rightarrow> PyUnicode [] | Some v \<Rightarrow> v))"

text \<open>\<^verbatim>\<open>if out is None: out = ""\<close>\<close>

definition empty_if_None :: "pyval \<Rightarrow> pyval" where
  "empty_if_None out = (if out = PyNone then PyUnicode [] else out)"

text \<open>
  \<^verbatim>\<open>Account._get\<close>. \<^verbatim>\<open>sorted\<close> is stable and ascending, as \<open>sort_key\<close> is; \<^verbatim>\<open>cards[0]\<close> on
  an empty list raises the \<^verbatim>\<open>IndexError\<close> that the \<^verbatim>\<open>except\<close> clause swallows.
\<close>

definition Account_get :: "Account \<Rightarrow> string \<Rightarrow> world \<Rightarrow> (exn + pyval) \<times> world" where
  "Account_get self name w =
     (case p_account self of
        None \<Rightarrow> (Inr (PyUnicode []), w)
      | Some a \<Rightarrow>
          (case balanced_Account_cards a w of
             (Inl e, w') \<Rightarrow> (if e = IndexError then (Inr (PyUnicode []), w') else (Inl e, w'))
           | (Inr cards, w') \<Rightarrow>
               (case rev (sort_key created_at cards) of
                  [] \<Rightarrow> (Inr (PyUnicode []), w')
                | c # _ \<Rightarrow> (Inr (empty_if_None (getattr_card c name)), w'))))"

text \<open>\<^verbatim>\<open>Account.__getitem__\<close>\<close>

definition Account_getitem :: "Account \<Rightarrow> string \<Rightarrow> world \<Rightarrow> (exn + pyval) \<times> world" where
  "Account_getitem self name w =
     (if name = ''id'' then
        (Inr (case p_account self of None \<Rightarrow> PyNone | Some a \<Rightarrow> PyUnicode (uri a)), w)
      else if name = ''last4'' then
        (case Account_get self ''last_four'' w of
           (Inl e, w') \<Rightarrow> (Inl e, w')
         | (Inr out, w') \<Rightarrow>
             (if truthy out then (unicode_add ''************'' out, w') else (Inr out, w')))
      else if name = ''expiry'' then
        (case Account_get self ''expiration_month'' w of
           (Inl e, w1) \<Rightarrow> (Inl e, w1)
         | (Inr month, w1) \<Rightarrow>
             (case Account_get self ''expiration_year'' w1 of
                (Inl e, w2) \<Rightarrow> (Inl e, w2)
              | (Inr year, w2) \<Rightarrow>
                  (if truthy month \<and> truthy year then (format_d_d month year, w2)
                   else (Inr (PyUnicode []), w2))))
      else Account_get self name w)"

subsection \<open>Reading the trace\<close>

text \<open>The reply the gateway will give to the next request.\<close>

definition next_reply :: "world \<Rightarrow> exn option" where
  "next_reply w = (case gw_replies w of [] \<Rightarrow> None | r # _ \<Rightarrow> r)"

text \<open>A write of the account reference, a write of \<^verbatim>\<open>last_bill_result\<close>, any statement.\<close>

fun is_customer :: "event \<Rightarrow> bool" where
  "is_customer (Db (CUSTOMER u i)) = True"
| "is_customer _ = False"

fun is_standing :: "event \<Rightarrow> bool" where
  "is_standing (Db (STANDING r i)) = True"
| "is_standing _ = False"

fun is_db :: "event \<Rightarrow> bool" where
  "is_db (Db q) = True"
| "is_db _ = False"

text \<open>A save of an account; it is a card-attach attempt when it carries a card.\<close>

fun is_account_save :: "event \<Rightarrow> bool" where
  "is_account_save (Gateway (SaveAccount a)) = True"
| "is_account_save _ = False"

fun is_card_attach :: "event \<Rightarrow> bool" where
  "is_card_attach (Gateway (SaveAccount a)) = (card_uri a \<noteq> None)"
| "is_card_attach _ = False"

fun is_create :: "event \<Rightarrow> bool" where
  "is_create (Gateway (Create e)) = True"
| "is_create _ = False"

fun is_card_save :: "event \<Rightarrow> bool" where
  "is_card_save (Gateway (SaveCard c)) = True"
| "is_card_save _ = False"

subsection \<open>Example worlds\<close>

definition alice_new :: participant where
  "alice_new = \<lparr>pid = ''alice'', balanced_account_uri = None, last_bill_result = None\<rparr>"

definition alice_linked :: participant where
  "alice_linked = \<lparr>pid = ''alice'', balanced_account_uri = Some ''/v1/accounts/A'', last_bill_result = Some []\<rparr>"

definition account_A :: balanced_account where
  "account_A = \<lparr>uri = ''/v1/accounts/A'', email_address = ''alice@gittip.com'', meta = [], card_uri = None\<rparr>"

definition card_1 :: card where
  "card_1 = \<lparr>c_uri = ''/v1/cards/1'', c_account = Some ''/v1/accounts/A'', is_valid = True, created_at = 1,
     attrs = [(''last_four'', PyUnicode ''1111''), (''expiration_month'', PyNone), (''expiration_year'', PyInt 2025)]\<rparr>"

definition card_2 :: card where
  "card_2 = \<lparr>c_uri = ''/v1/cards/2'', c_account = Some ''/v1/accounts/A'', is_valid = True, created_at = 2,
     attrs = [(''last_four'', PyUnicode ''4242''), (''expiration_month'', PyInt 12), (''expiration_year'', PyInt 2030)]\<rparr>"

text \<open>The gateway knows no account; the participant has never been billed.\<close>

definition world_new :: "exn option list \<Rightarrow> world" where
  "world_new rs = \<lparr>gw_accounts = [], gw_cards = [], gw_replies = rs, participants = [alice_new], trace = []\<rparr>"

text \<open>The gateway has an account under alice's email address, the participant row has no reference.\<close>

definition world_found :: "exn option list \<Rightarrow> world" where
  "world_found rs = \<lparr>gw_accounts = [account_A], gw_cards = [], gw_replies = rs,
     participants = [alice_new], trace = []\<rparr>"

text \<open>The participant row refers to the account, which has the given cards.\<close>

definition world_linked :: "card list \<Rightarrow> exn option list \<Rightarrow> world" where
  "world_linked cs rs = \<lparr>gw_accounts = [account_A], gw_cards = cs, gw_replies = rs,
     participants = [alice_linked], trace = []\<rparr>"

text \<open>The world after alice's two cards have been revoked.\<close>

definition world_cleared :: world where
  "world_cleared =
     snd (clear (PyUnicode ''alice'') (PyUnicode ''/v1/accounts/A'') (world_linked [card_1, card_2] []))"

lemmas example_defs = alice_new_def alice_linked_def account_A_def card_1_def card_2_def
  world_new_def world_found_def world_linked_def

section \<open>Properties\<close>

subsection \<open>The gateway requests, one by one\<close>

lemma gateway_eq:
  "gateway rq w = (next_reply w, w\<lparr>gw_replies := tl (gw_replies w), trace := trace w @ [Gateway rq]\<rparr>)"
  by (cases "gw_replies w") (simp_all add: gateway_def next_reply_def)

lemmas prims = balanced_Account_find_def balanced_Account_query_one_def
  balanced_Account_create_def balanced_Account_save_def gateway_eq db_execute_def

lemma find_eq:
  "balanced_Account_find u w =
     (let w1 = w\<lparr>gw_replies := tl (gw_replies w), trace := trace w @ [Gateway (Find u)]\<rparr> in
      case next_reply w of
        Some e \<Rightarrow> (Inl e, w1)
      | None \<Rightarrow>
          (case filter (\<lambda>a. uri a = u) (gw_accounts w) of
             [] \<Rightarrow> (Inl (HTTPError (PyUnicode ''Not Found'')), w1)
           | a # _ \<Rightarrow> (Inr (a\<lparr>card_uri := None\<rparr>), w1)))"
  by (simp add: balanced_Account_find_def gateway_eq Let_def split: option.splits list.splits)

lemma find_uri: "balanced_Account_find u w = (Inr a, w1) \<Longrightarrow> uri a = u"
proof -
  assume a: "balanced_Account_find u w = (Inr a, w1)"
  then obtain b bs where b: "filter (\<lambda>a. uri a = u) (gw_accounts w) = b # bs" "a = b\<lparr>card_uri := None\<rparr>"
    by (auto simp: find_eq Let_def split: option.splits list.splits)
  from filter_eq_ConsD [OF b(1)] have "uri b = u" by blast
  with b(2) show ?thesis by simp
qed

lemma find_effect:
  "balanced_Account_find u w = (r, w1) \<Longrightarrow>
     w1 = w\<lparr>gw_replies := tl (gw_replies w), trace := trace w @ [Gateway (Find u)]\<rparr>"
  by (auto simp: find_eq Let_def split: option.splits list.splits)

lemma cards_eq:
  "balanced_Account_cards a w =
     (let w1 = w\<lparr>gw_replies := tl (gw_replies w), trace := trace w @ [Gateway (ListCards (uri a))]\<rparr> in
      case next_reply w of
        Some e \<Rightarrow> (Inl e, w1)
      | None \<Rightarrow> (Inr (filter (\<lambda>d. c_account d = Some (uri a)) (gw_cards w)), w1))"
  by (simp add: balanced_Account_cards_def gateway_eq Let_def split: option.splits)

lemma card_save_eq:
  "balanced_Card_save c w =
     (case next_reply w of
        Some e \<Rightarrow> (Inl e, w\<lparr>gw_replies := tl (gw_replies w), trace := trace w @ [Gateway (SaveCard c)]\<rparr>)
      | None \<Rightarrow> (Inr (), w\<lparr>gw_replies := tl (gw_replies w), trace := trace w @ [Gateway (SaveCard c)],
            gw_cards := map (\<lambda>d. if c_uri d = c_uri c then c else d) (gw_cards w)\<rparr>))"
  by (simp add: balanced_Card_save_def gateway_eq split: option.splits)

lemma save_effect:
  "snd (balanced_Account_save a w) = w' \<Longrightarrow>
     trace w' = trace w @ [Gateway (SaveAccount a)] \<and> participants w' = participants w"
  by (auto simp: prims split: option.splits)

subsection \<open>associate\<close>

lemma load_or_create_trace:
  assumes "load_or_create p au w = (r, w1)"
  shows "\<exists>evs. trace w1 = trace w @ evs \<and> filter is_standing evs = [] \<and> filter is_card_attach evs = []"
  using assms
  by (auto simp: load_or_create_def Let_def prims
      split: if_splits option.splits prod.splits sum.splits list.splits)

lemma load_or_create_find:
  assumes "load_or_create p (PyUnicode u) w = (r, w1)"
  shows "participants w1 = participants w \<and> trace w1 = trace w @ [Gateway (Find u)]"
  using assms
  by (auto simp: load_or_create_def prims split: list.splits option.splits)

lemma load_or_create_None:
  assumes "load_or_create p PyNone w = (Inr customer, w1)"
  shows "participants w1 = map (run_update (CUSTOMER (uri customer) p)) (participants w)"
  using assms
  by (auto simp: load_or_create_def Let_def prims
      split: if_splits option.splits prod.splits sum.splits list.splits)

lemma associate_card_cases:
  "associate_card p customer tok w1 =
     (case next_reply w1 of
        None \<Rightarrow> (Inr (PyUnicode []),
          db_execute (STANDING [] p) (snd (balanced_Account_save (customer\<lparr>card_uri := Some tok\<rparr>) w1)))
      | Some e \<Rightarrow>
         (case e of
            HTTPError message \<Rightarrow>
              (case message of
                 PyUnicode m \<Rightarrow> (Inr message,
                   db_execute (STANDING m p) (snd (balanced_Account_save (customer\<lparr>card_uri := Some tok\<rparr>) w1)))
               | _ \<Rightarrow> (Inl TypeError, snd (balanced_Account_save (customer\<lparr>card_uri := Some tok\<rparr>) w1)))
          | _ \<Rightarrow> (Inl e, snd (balanced_Account_save (customer\<lparr>card_uri := Some tok\<rparr>) w1))))"
  by (auto simp: associate_card_def prims split: option.splits exn.splits pyval.splits)

lemma associate_unfold:
  assumes "type_of au \<in> {TUnicode, TNone}" and "load_or_create p au w = (Inr customer, w1)"
  shows "associate (PyUnicode p) au (PyUnicode tok) w = associate_card p customer tok w1"
  using assms by (auto simp: associate_def)

lemma keep_account_uri:
  "map balanced_account_uri (map (run_update (STANDING m p)) ps) = map balanced_account_uri ps"
  by (induction ps) simp_all

text \<open>What the example worlds do in the first half of \<^verbatim>\<open>associate\<close>.\<close>

lemma string_of_nat_0: "string_of_nat 0 = ''0''"
  by (simp add: string_of_nat.simps)

lemma load_new:
  "load_or_create ''alice'' PyNone (world_new (None # None # None # rs)) =
     (Inr \<lparr>uri = ''/v1/accounts/0'', email_address = ''alice@gittip.com'',
           meta = [(''participant_id'', PyUnicode ''alice'')], card_uri = None\<rparr>,
      \<lparr>gw_accounts = [\<lparr>uri = ''/v1/accounts/0'', email_address = ''alice@gittip.com'',
           meta = [(''participant_id'', PyUnicode ''alice'')], card_uri = None\<rparr>],
       gw_cards = [], gw_replies = rs,
       participants = [\<lparr>pid = ''alice'', balanced_account_uri = Some ''/v1/accounts/0'',
                         last_bill_result = None\<rparr>],
       trace = [Gateway (Query ''alice@gittip.com''), Gateway (Create ''alice@gittip.com''),
                Db (CUSTOMER ''/v1/accounts/0'' ''alice''),
                Gateway (SaveAccount \<lparr>uri = ''/v1/accounts/0'', email_address = ''alice@gittip.com'',
                   meta = [(''participant_id'', PyUnicode ''alice'')], card_uri = None\<rparr>)]\<rparr>)"
  by (simp add: load_or_create_def Let_def balanced_Account_query_one_def balanced_Account_create_def
      balanced_Account_save_def gateway_def db_execute_def example_defs string_of_nat_0)

lemma load_found:
  "load_or_create ''alice'' PyNone (world_found rs) =
     (Inr \<lparr>uri = ''/v1/accounts/A'', email_address = ''alice@gittip.com'',
           meta = [(''participant_id'', PyUnicode ''alice'')], card_uri = None\<rparr>,
      \<lparr>gw_accounts = [\<lparr>uri = ''/v1/accounts/A'', email_address = ''alice@gittip.com'',
           meta = [(''participant_id'', PyUnicode ''alice'')], card_uri = None\<rparr>],
       gw_cards = [], gw_replies = tl (tl rs),
       participants = [\<lparr>pid = ''alice'', balanced_account_uri = Some ''/v1/accounts/A'',
                         last_bill_result = None\<rparr>],
       trace = [Gateway (Query ''alice@gittip.com''),
                Db (CUSTOMER ''/v1/accounts/A'' ''alice''),
                Gateway (SaveAccount \<lparr>uri = ''/v1/accounts/A'', email_address = ''alice@gittip.com'',
                   meta = [(''participant_id'', PyUnicode ''alice'')], card_uri = None\<rparr>)]\<rparr>)"
  if "rs = [] \<or> rs = [None, None, r]"
  using that
  by (auto simp: load_or_create_def Let_def balanced_Account_query_one_def
      balanced_Account_save_def gateway_def db_execute_def example_defs)

lemma load_linked:
  "load_or_create ''alice'' (PyUnicode ''/v1/accounts/A'') (world_linked cs (None # rs)) =
     (Inr account_A,
      \<lparr>gw_accounts = [account_A], gw_cards = cs, gw_replies = rs, participants = [alice_linked],
       trace = [Gateway (Find ''/v1/accounts/A'')]\<rparr>)"
  by (simp add: load_or_create_def balanced_Account_find_def gateway_def example_defs)

text \<open>
  C4, as the code has it. Whenever \<^verbatim>\<open>associate\<close> reaches the card-attach step (the first
  half returned the account \<open>customer\<close> in world \<open>w1\<close>): if the gateway accepts the save,
  \<^verbatim>\<open>associate\<close> returns \<^verbatim>\<open>""\<close> and writes \<^verbatim>\<open>last_bill_result = ""\<close>; if the gateway
  answers with an \<^verbatim>\<open>HTTPError\<close> whose message is the unicode \<open>m\<close>, it returns \<open>m\<close> and
  writes \<^verbatim>\<open>last_bill_result = m\<close>. In these two cases the write is the only
  \<^verbatim>\<open>last_bill_result\<close> write of the whole call, it comes right after the save request, and
  the value returned is the value written. If the message of the \<^verbatim>\<open>HTTPError\<close> is not a
  unicode (a byte string, \<^verbatim>\<open>None\<close>, a number), the type check on the message raises
  \<^verbatim>\<open>TypeError\<close>: the call returns nothing, writes no \<^verbatim>\<open>last_bill_result\<close> and leaves the
  table as it was before the step.
\<close>

theorem associate_persists_outcome:
  assumes "load_or_create p au w = (Inr customer, w1)"
    and "type_of au \<in> {TUnicode, TNone}"
  shows "(next_reply w1 = None \<longrightarrow>
           (\<exists>w2. associate (PyUnicode p) au (PyUnicode tok) w = (Inr (PyUnicode []), w2) \<and>
                 emitted w w2 = emitted w w1 @
                   [Gateway (SaveAccount (customer\<lparr>card_uri := Some tok\<rparr>)), Db (STANDING [] p)] \<and>
                 filter is_standing (emitted w w2) = [Db (STANDING [] p)] \<and>
                 participants w2 = map (run_update (STANDING [] p)) (participants w1))) \<and>
         (\<forall>m. next_reply w1 = Some (HTTPError (PyUnicode m)) \<longrightarrow>
           (\<exists>w2. associate (PyUnicode p) au (PyUnicode tok) w = (Inr (PyUnicode m), w2) \<and>
                 emitted w w2 = emitted w w1 @
                   [Gateway (SaveAccount (customer\<lparr>card_uri := Some tok\<rparr>)), Db (STANDING m p)] \<and>
                 filter is_standing (emitted w w2) = [Db (STANDING m p)] \<and>
                 participants w2 = map (run_update (STANDING m p)) (participants w1))) \<and>
         (\<forall>message. next_reply w1 = Some (HTTPError message) \<and> type_of message \<noteq> TUnicode \<longrightarrow>
           (\<exists>w2. associate (PyUnicode p) au (PyUnicode tok) w = (Inl TypeError, w2) \<and>
                 emitted w w2 = emitted w w1 @
                   [Gateway (SaveAccount (customer\<lparr>card_uri := Some tok\<rparr>))] \<and>
                 filter is_standing (emitted w w2) = [] \<and>
                 participants w2 = participants w1))"
  (is "?accepted \<and> ?declined \<and> ?untyped")
proof -
  from load_or_create_trace [OF assms(1)] obtain evs where
    evs: "trace w1 = trace w @ evs" "filter is_standing evs = []" by blast
  let ?s = "snd (balanced_Account_save (customer\<lparr>card_uri := Some tok\<rparr>) w1)"
  have s: "trace ?s = trace w1 @ [Gateway (SaveAccount (customer\<lparr>card_uri := Some tok\<rparr>))]"
    "participants ?s = participants w1"
    using save_effect [OF refl, of "customer\<lparr>card_uri := Some tok\<rparr>" w1] by simp_all
  have a: "associate (PyUnicode p) au (PyUnicode tok) w = associate_card p customer tok w1"
    by (rule associate_unfold [OF assms(2) assms(1)])
  have 1: ?accepted
    by (simp add: a associate_card_cases emitted_def evs s db_execute_def)
  have 2: ?declined
    by (simp add: a associate_card_cases emitted_def evs s db_execute_def)
  have 3: ?untyped
  proof (intro allI impI)
    fix message
    assume "next_reply w1 = Some (HTTPError message) \<and> type_of message \<noteq> TUnicode"
    then have "associate_card p customer tok w1 = (Inl TypeError, ?s)"
      by (cases message) (simp_all add: associate_card_cases)
    then show "\<exists>w2. associate (PyUnicode p) au (PyUnicode tok) w = (Inl TypeError, w2) \<and>
                 emitted w w2 = emitted w w1 @
                   [Gateway (SaveAccount (customer\<lparr>card_uri := Some tok\<rparr>))] \<and>
                 filter is_standing (emitted w w2) = [] \<and>
                 participants w2 = participants w1"
      by (simp add: a emitted_def evs s)
  qed
  from 1 2 3 show ?thesis by (intro conjI)
qed

theorem associate_persists_outcome_witness:
  "associate (PyUnicode ''alice'') (PyUnicode ''/v1/accounts/A'') (PyUnicode ''/v1/cards/X'')
       (world_linked [] [None]) =
     (Inr (PyUnicode []), snd (associate (PyUnicode ''alice'') (PyUnicode ''/v1/accounts/A'')
       (PyUnicode ''/v1/cards/X'') (world_linked [] [None]))) \<and>
   map last_bill_result (participants (snd (associate (PyUnicode ''alice'')
       (PyUnicode ''/v1/accounts/A'') (PyUnicode ''/v1/cards/X'') (world_linked [] [None])))) = [Some []] \<and>
   fst (associate (PyUnicode ''alice'') PyNone (PyUnicode ''/v1/cards/X'')
       (world_new [None, None, None, Some (HTTPError (PyUnicode ''Card declined''))])) =
     Inr (PyUnicode ''Card declined'') \<and>
   map last_bill_result (participants (snd (associate (PyUnicode ''alice'') PyNone
       (PyUnicode ''/v1/cards/X'')
       (world_new [None, None, None, Some (HTTPError (PyUnicode ''Card declined''))])))) =
     [Some ''Card declined'']"
proof -
  have t1: "type_of (PyUnicode ''/v1/accounts/A'') \<in> {TUnicode, TNone}" by simp
  have t2: "type_of PyNone \<in> {TUnicode, TNone}" by simp
  note a = associate_persists_outcome [OF load_linked [of "[]" "[]"] t1, of "''/v1/cards/X''"]
  note b = associate_persists_outcome [OF load_new [of "[Some (HTTPError (PyUnicode ''Card declined''))]"] t2,
      of "''/v1/cards/X''"]
  from a b show ?thesis
    by (auto simp: next_reply_def example_defs)
qed

text \<open>
  C4, as stated, fails when the gateway declines the card with an \<^verbatim>\<open>HTTPError\<close> whose
  message is a byte string: the type check on the message raises \<^verbatim>\<open>TypeError\<close>, so the
  call returns no message, and after the save request it writes nothing:
  \<^verbatim>\<open>last_bill_result\<close> is what it was before the call, not the message.
\<close>

theorem declined_with_byte_string_message:
  "associate (PyUnicode ''alice'') (PyUnicode ''/v1/accounts/A'') (PyUnicode ''/v1/cards/X'')
       (world_linked [] [None, Some (HTTPError (PyStr ''Card declined''))]) =
     (Inl TypeError,
      \<lparr>gw_accounts = [account_A], gw_cards = [], gw_replies = [], participants = [alice_linked],
       trace = [Gateway (Find ''/v1/accounts/A''),
                Gateway (SaveAccount (account_A\<lparr>card_uri := Some ''/v1/cards/X''\<rparr>))]\<rparr>) \<and>
   filter is_standing (emitted (world_linked [] [None, Some (HTTPError (PyStr ''Card declined''))])
     (snd (associate (PyUnicode ''alice'') (PyUnicode ''/v1/accounts/A'') (PyUnicode ''/v1/cards/X'')
       (world_linked [] [None, Some (HTTPError (PyStr ''Card declined''))])))) = [] \<and>
   map last_bill_result (participants
     (snd (associate (PyUnicode ''alice'') (PyUnicode ''/v1/accounts/A'') (PyUnicode ''/v1/cards/X'')
       (world_linked [] [None, Some (HTTPError (PyStr ''Card declined''))])))) = [Some []]"
  by (simp add: associate_def load_linked)
    (simp add: associate_card_def balanced_Account_save_def gateway_def emitted_def
      world_linked_def alice_linked_def)



text \<open>
  C1, as the code has it. After a call of \<^verbatim>\<open>associate\<close> in which the gateway answers the
  card-attach save with an \<^verbatim>\<open>HTTPError\<close>, the column \<^verbatim>\<open>balanced_account_uri\<close> is never
  nulled and is not touched by the failed step: when the call was given an account
  reference, the column is as it was before the call, for every participant; when the call
  was given \<^verbatim>\<open>None\<close>, the column of the participant holds the reference of the account
  that the call has found or created, and the other rows are as they were.
\<close>

theorem failed_associate_account_ref:
  assumes "load_or_create p au w = (Inr customer, w1)"
    and "type_of au \<in> {TUnicode, TNone}"
    and "next_reply w1 = Some (HTTPError message)"
    and "associate (PyUnicode p) au (PyUnicode tok) w = (r, w2)"
  shows "map balanced_account_uri (participants w2) =
           (if au = PyNone
            then map (\<lambda>row. if pid row = p then Some (uri customer) else balanced_account_uri row)
                     (participants w)
            else map balanced_account_uri (participants w))"
proof -
  let ?s = "snd (balanced_Account_save (customer\<lparr>card_uri := Some tok\<rparr>) w1)"
  have s: "participants ?s = participants w1"
    using save_effect [OF refl, of "customer\<lparr>card_uri := Some tok\<rparr>" w1] by simp
  have a: "associate (PyUnicode p) au (PyUnicode tok) w = associate_card p customer tok w1"
    by (rule associate_unfold [OF assms(2) assms(1)])
  have 1: "map balanced_account_uri (participants w2) = map balanced_account_uri (participants w1)"
    using assms(3,4) unfolding a
    by (cases message) (auto simp: associate_card_cases s db_execute_def keep_account_uri)
  show ?thesis
  proof (cases "au = PyNone")
    case True
    with assms(1) have "participants w1 = map (run_update (CUSTOMER (uri customer) p)) (participants w)"
      using load_or_create_None by blast
    then have "map balanced_account_uri (participants w1) =
        map (\<lambda>row. if pid row = p then Some (uri customer) else balanced_account_uri row) (participants w)"
      by simp
    with 1 True show ?thesis by simp
  next
    case False
    with assms(2) obtain u where "au = PyUnicode u" by (cases au) auto
    with assms(1) have "participants w1 = participants w"
      using load_or_create_find by blast
    with 1 False show ?thesis by simp
  qed
qed

theorem failed_associate_account_ref_witness:
  "map balanced_account_uri (participants (snd (associate (PyUnicode ''alice'')
       (PyUnicode ''/v1/accounts/A'') (PyUnicode ''/v1/cards/X'')
       (world_linked [] [None, Some (HTTPError (PyUnicode ''Card declined''))])))) =
     [Some ''/v1/accounts/A''] \<and>
   map balanced_account_uri (participants (snd (associate (PyUnicode ''alice'') PyNone
       (PyUnicode ''/v1/cards/X'')
       (world_new [None, None, None, Some (HTTPError (PyUnicode ''Card declined''))])))) =
     [Some ''/v1/accounts/0'']"
proof -
  have t: "type_of (PyUnicode ''/v1/accounts/A'') \<in> {TUnicode, TNone}"
    "type_of PyNone \<in> {TUnicode, TNone}" by simp_all
  have n: "next_reply \<lparr>gw_accounts = [account_A], gw_cards = [],
        gw_replies = [Some (HTTPError (PyUnicode ''Card declined''))], participants = [alice_linked],
        trace = [Gateway (Find ''/v1/accounts/A'')]\<rparr> = Some (HTTPError (PyUnicode ''Card declined''))"
    by (simp add: next_reply_def)
  have n': "next_reply \<lparr>gw_accounts = [\<lparr>uri = ''/v1/accounts/0'', email_address = ''alice@gittip.com'',
           meta = [(''participant_id'', PyUnicode ''alice'')], card_uri = None\<rparr>],
       gw_cards = [], gw_replies = [Some (HTTPError (PyUnicode ''Card declined''))],
       participants = [\<lparr>pid = ''alice'', balanced_account_uri = Some ''/v1/accounts/0'',
                         last_bill_result = None\<rparr>],
       trace = [Gateway (Query ''alice@gittip.com''), Gateway (Create ''alice@gittip.com''),
                Db (CUSTOMER ''/v1/accounts/0'' ''alice''),
                Gateway (SaveAccount \<lparr>uri = ''/v1/accounts/0'', email_address = ''alice@gittip.com'',
                   meta = [(''participant_id'', PyUnicode ''alice'')], card_uri = None\<rparr>)]\<rparr> =
      Some (HTTPError (PyUnicode ''Card declined''))"
    by (simp add: next_reply_def)
  from failed_associate_account_ref [OF load_linked t(1) n surjective_pairing]
    failed_associate_account_ref [OF load_new t(2) n' surjective_pairing]
  show ?thesis by (simp add: example_defs)
qed

text \<open>
  C1, as stated, fails for a participant whose reference is NULL before the call: the
  gateway has no account for alice, the call creates one and writes its reference, then
  the card is declined. The call returns the message, and the column that was NULL before
  the call holds the new reference after it.
\<close>

theorem failed_associate_changes_null_account_ref:
  "fst (associate (PyUnicode ''alice'') PyNone (PyUnicode ''/v1/cards/X'')
       (world_new [None, None, None, Some (HTTPError (PyUnicode ''Card declined''))])) =
     Inr (PyUnicode ''Card declined'') \<and>
   map balanced_account_uri
     (participants (world_new [None, None, None, Some (HTTPError (PyUnicode ''Card declined''))])) =
     [None] \<and>
   map balanced_account_uri (participants (snd (associate (PyUnicode ''alice'') PyNone
       (PyUnicode ''/v1/cards/X'')
       (world_new [None, None, None, Some (HTTPError (PyUnicode ''Card declined''))])))) =
     [Some ''/v1/accounts/0'']"
  by (simp add: associate_def load_new)
    (simp add: associate_card_def balanced_Account_save_def gateway_def db_execute_def
      world_new_def alice_new_def)

lemma load_or_create_None_writes:
  assumes "load_or_create p PyNone w = (r, w1)"
  shows "\<exists>evs. trace w1 = trace w @ evs \<and>
           length (filter is_customer evs) \<le> 1 \<and>
           filter is_card_attach evs = [] \<and>
           filter is_account_save (takeWhile (\<lambda>e. \<not> is_customer e) evs) = [] \<and>
           ((length (gw_accounts w) < length (gw_accounts w1) \<or> (\<exists>e\<in>set evs. is_account_save e) \<or>
             (\<exists>c. r = Inr c)) \<longrightarrow> length (filter is_customer evs) = 1)"
  using assms
  by (auto simp: load_or_create_def Let_def prims
      split: if_splits option.splits prod.splits sum.splits list.splits)

lemma associate_card_trace:
  assumes "associate_card p customer tok w1 = (r, w')"
  shows "length (gw_accounts w') = length (gw_accounts w1) \<and>
         (\<exists>evs. trace w' = trace w1 @ Gateway (SaveAccount (customer\<lparr>card_uri := Some tok\<rparr>)) # evs \<and>
                filter is_customer evs = [])"
  using assms
  by (auto simp: associate_card_def prims split: option.splits exn.splits sum.splits)

lemma takeWhile_first:
  "filter P xs \<noteq> [] \<Longrightarrow> takeWhile (\<lambda>e. \<not> P e) (xs @ ys) = takeWhile (\<lambda>e. \<not> P e) xs"
  by (induction xs) auto

lemma filter_takeWhile_Nil: "filter Q xs = [] \<Longrightarrow> filter Q (takeWhile P xs) = []"
  by (induction xs) (auto split: if_splits)

text \<open>
  C2, as the code has it. A call of \<^verbatim>\<open>associate\<close> that is given an account reference
  never writes the reference. A call that is given \<^verbatim>\<open>None\<close> writes it at most once, and
  no card-attach attempt comes before that write; it writes it exactly once as soon as it
  has an account in hand, whether the gateway has created the account during the call or
  has found an existing one under the participant's email address (every account save of
  such a call, and so the call's normal return, comes after the one write).
\<close>

theorem associate_account_ref_writes:
  assumes "associate (PyUnicode p) au (PyUnicode tok) w = (r, w')"
  shows "(au \<noteq> PyNone \<longrightarrow> filter is_customer (emitted w w') = []) \<and>
         (au = PyNone \<longrightarrow>
            length (filter is_customer (emitted w w')) \<le> 1 \<and>
            filter is_card_attach (takeWhile (\<lambda>e. \<not> is_customer e) (emitted w w')) = [] \<and>
            ((length (gw_accounts w) < length (gw_accounts w') \<or>
              (\<exists>e\<in>set (emitted w w'). is_account_save e)) \<longrightarrow>
               length (filter is_customer (emitted w w')) = 1))"
proof (cases "au = PyNone")
  case True
  obtain r1 w1 where l: "load_or_create p PyNone w = (r1, w1)"
    by (cases "load_or_create p PyNone w")
  from load_or_create_None_writes [OF l] obtain evs where evs:
    "trace w1 = trace w @ evs"
    "length (filter is_customer evs) \<le> 1"
    "filter is_card_attach evs = []"
    "(length (gw_accounts w) < length (gw_accounts w1) \<or> (\<exists>e\<in>set evs. is_account_save e) \<or>
       (\<exists>c. r1 = Inr c)) \<longrightarrow> length (filter is_customer evs) = 1"
    by blast
  show ?thesis
  proof (cases r1)
    case (Inl e)
    with assms l True have "w' = w1" by (simp add: associate_def)
    with evs True show ?thesis
      by (simp add: emitted_def filter_takeWhile_Nil)
  next
    case (Inr customer)
    with assms l True have "associate_card p customer tok w1 = (r, w')" by (simp add: associate_def)
    from associate_card_trace [OF this] obtain evs' where evs':
      "trace w' = trace w1 @ Gateway (SaveAccount (customer\<lparr>card_uri := Some tok\<rparr>)) # evs'"
      "filter is_customer evs' = []" by blast
    from evs(4) Inr have one: "length (filter is_customer evs) = 1" by simp
    then have "filter is_customer evs \<noteq> []" by auto
    then have "takeWhile (\<lambda>e. \<not> is_customer e)
        (evs @ Gateway (SaveAccount (customer\<lparr>card_uri := Some tok\<rparr>)) # evs') =
        takeWhile (\<lambda>e. \<not> is_customer e) evs"
      by (rule takeWhile_first)
    with evs evs' one True show ?thesis
      by (simp add: emitted_def filter_takeWhile_Nil)
  qed
next
  case False
  show ?thesis
  proof (cases "type_of au = TUnicode")
    case True
    then obtain u where u: "au = PyUnicode u" by (cases au) auto
    obtain r1 w1 where l: "load_or_create p (PyUnicode u) w = (r1, w1)"
      by (cases "load_or_create p (PyUnicode u) w")
    note t = load_or_create_find [OF l]
    show ?thesis
    proof (cases r1)
      case (Inl e)
      with assms l u have "w' = w1" by (simp add: associate_def)
      with t False show ?thesis by (simp add: emitted_def)
    next
      case (Inr customer)
      with assms l u have "associate_card p customer tok w1 = (r, w')" by (simp add: associate_def)
      from associate_card_trace [OF this] t False show ?thesis
        by (auto simp: emitted_def)
    qed
  next
    case F: False
    with False have "type_of au \<notin> {TUnicode, TNone}" by (cases au) auto
    with assms have "w' = w" by (auto simp: associate_def)
    with False show ?thesis by (simp add: emitted_def)
  qed
qed

theorem associate_account_ref_writes_witness:
  "filter is_customer (emitted (world_found [])
      (snd (associate (PyUnicode ''alice'') PyNone (PyUnicode ''/v1/cards/X'') (world_found [])))) \<noteq> [] \<and>
   length (filter is_customer (emitted (world_found [])
      (snd (associate (PyUnicode ''alice'') PyNone (PyUnicode ''/v1/cards/X'') (world_found []))))) = 1 \<and>
   filter is_customer (emitted (world_linked [] [])
      (snd (associate (PyUnicode ''alice'') (PyUnicode ''/v1/accounts/A'') (PyUnicode ''/v1/cards/X'')
         (world_linked [] [])))) = []"
proof -
  let ?w = "snd (associate (PyUnicode ''alice'') PyNone (PyUnicode ''/v1/cards/X'') (world_found []))"
  have "Gateway (SaveAccount \<lparr>uri = ''/v1/accounts/A'', email_address = ''alice@gittip.com'',
           meta = [(''participant_id'', PyUnicode ''alice'')], card_uri = None\<rparr>)
        \<in> set (emitted (world_found []) ?w)"
    by (simp add: associate_def load_found)
      (simp add: associate_card_def balanced_Account_save_def gateway_def db_execute_def
        emitted_def world_found_def)
  then have s: "\<exists>e\<in>set (emitted (world_found []) ?w). is_account_save e"
    by (rule bexI [rotated]) simp
  from associate_account_ref_writes [where p = "''alice''" and au = PyNone and tok = "''/v1/cards/X''"
      and w = "world_found []", OF surjective_pairing] s
  have 1: "length (filter is_customer (emitted (world_found []) ?w)) = 1" by simp
  then have 2: "filter is_customer (emitted (world_found []) ?w) \<noteq> []" by auto
  from associate_account_ref_writes [where p = "''alice''" and au = "PyUnicode ''/v1/accounts/A''"
      and tok = "''/v1/cards/X''" and w = "world_linked [] []", OF surjective_pairing]
  have 3: "filter is_customer (emitted (world_linked [] [])
      (snd (associate (PyUnicode ''alice'') (PyUnicode ''/v1/accounts/A'') (PyUnicode ''/v1/cards/X'')
         (world_linked [] [])))) = []" by simp
  from 1 2 3 show ?thesis by simp
qed

text \<open>
  C2, as stated, fails when the participant has no reference and the gateway already has
  an account under the participant's email address: no account is created (the call sends
  no create request and the gateway's accounts keep their references), the existing
  account is reused, and yet the call writes the account reference once.
\<close>

theorem reused_account_ref_is_written:
  "emitted (world_found [])
      (snd (associate (PyUnicode ''alice'') PyNone (PyUnicode ''/v1/cards/X'') (world_found []))) =
     [Gateway (Query ''alice@gittip.com''),
      Db (CUSTOMER ''/v1/accounts/A'' ''alice''),
      Gateway (SaveAccount \<lparr>uri = ''/v1/accounts/A'', email_address = ''alice@gittip.com'',
         meta = [(''participant_id'', PyUnicode ''alice'')], card_uri = None\<rparr>),
      Gateway (SaveAccount \<lparr>uri = ''/v1/accounts/A'', email_address = ''alice@gittip.com'',
         meta = [(''participant_id'', PyUnicode ''alice'')], card_uri = Some ''/v1/cards/X''\<rparr>),
      Db (STANDING [] ''alice'')] \<and>
   map uri (gw_accounts (snd (associate (PyUnicode ''alice'') PyNone (PyUnicode ''/v1/cards/X'')
      (world_found [])))) = map uri (gw_accounts (world_found [])) \<and>
   filter is_create (emitted (world_found [])
      (snd (associate (PyUnicode ''alice'') PyNone (PyUnicode ''/v1/cards/X'') (world_found [])))) = [] \<and>
   length (filter is_customer (emitted (world_found [])
      (snd (associate (PyUnicode ''alice'') PyNone (PyUnicode ''/v1/cards/X'') (world_found []))))) = 1"
  by (simp add: associate_def load_found)
    (simp add: associate_card_def balanced_Account_save_def gateway_def db_execute_def
      emitted_def world_found_def account_A_def)

subsection \<open>clear\<close>

lemma invalidate_cards_Inr:
  "invalidate_cards cs w = (Inr x, w') \<Longrightarrow>
     trace w' = trace w @ map (\<lambda>c. Gateway (SaveCard (c\<lparr>is_valid := False\<rparr>))) (filter is_valid cs) \<and>
     participants w' = participants w \<and> gw_accounts w' = gw_accounts w"
proof (induction cs arbitrary: w)
  case Nil
  then show ?case by simp
next
  case (Cons c cs)
  show ?case
  proof (cases "is_valid c")
    case True
    with Cons.prems obtain w1 where
      1: "balanced_Card_save (c\<lparr>is_valid := False\<rparr>) w = (Inr (), w1)" and
      2: "invalidate_cards cs w1 = (Inr x, w')"
      by (auto split: prod.splits sum.splits)
    from 1 have "trace w1 = trace w @ [Gateway (SaveCard (c\<lparr>is_valid := False\<rparr>))]"
      "participants w1 = participants w" "gw_accounts w1 = gw_accounts w"
      by (auto simp: card_save_eq split: option.splits)
    with Cons.IH [OF 2] True show ?thesis by simp
  next
    case False
    with Cons show ?thesis by simp
  qed
qed

lemma invalidate_cards_Inl:
  "invalidate_cards cs w = (Inl e, w') \<Longrightarrow>
     participants w' = participants w \<and> (\<exists>evs. trace w' = trace w @ evs \<and> filter is_db evs = [])"
proof (induction cs arbitrary: w)
  case Nil
  then show ?case by simp
next
  case (Cons c cs)
  show ?case
  proof (cases "is_valid c")
    case True
    let ?r = "balanced_Card_save (c\<lparr>is_valid := False\<rparr>) w"
    have t: "trace (snd ?r) = trace w @ [Gateway (SaveCard (c\<lparr>is_valid := False\<rparr>))]"
      "participants (snd ?r) = participants w"
      by (auto simp: card_save_eq split: option.splits)
    show ?thesis
    proof (cases "fst ?r")
      case (Inl e')
      with Cons.prems True have "w' = snd ?r"
        by (auto split: prod.splits sum.splits)
      with t show ?thesis by simp
    next
      case (Inr u)
      with Cons.prems True have "invalidate_cards cs (snd ?r) = (Inl e, w')"
        by (auto split: prod.splits sum.splits)
      from Cons.IH [OF this] t show ?thesis by auto
    qed
  next
    case False
    with Cons show ?thesis by simp
  qed
qed

text \<open>A gateway that answers every request lets the loop run to its end.\<close>

lemma invalidate_cards_total:
  "gw_replies w = [] \<Longrightarrow> \<exists>w'. invalidate_cards cs w = (Inr (), w')"
proof (induction cs arbitrary: w)
  case Nil
  then show ?case by simp
next
  case (Cons c cs)
  let ?w1 = "w\<lparr>gw_replies := tl (gw_replies w), trace := trace w @ [Gateway (SaveCard (c\<lparr>is_valid := False\<rparr>))],
            gw_cards := map (\<lambda>d. if c_uri d = c_uri (c\<lparr>is_valid := False\<rparr>) then c\<lparr>is_valid := False\<rparr> else d) (gw_cards w)\<rparr>"
  from Cons.prems have "gw_replies ?w1 = []" by simp
  from Cons.IH [OF this] Cons.IH [OF Cons.prems] Cons.prems show ?case
    by (auto simp: card_save_eq next_reply_def)
qed

text \<open>
  The loop invariant: a card of the account that is still valid at the gateway is among
  the cards the loop has yet to visit.
\<close>

lemma invalidate_cards_all_invalid:
  "invalidate_cards cs w = (Inr x, w') \<Longrightarrow>
   \<forall>d\<in>set (gw_cards w). c_account d = Some u \<longrightarrow>
       \<not> is_valid d \<or> (\<exists>c\<in>set cs. is_valid c \<and> c_uri c = c_uri d) \<Longrightarrow>
   \<forall>d\<in>set (gw_cards w'). c_account d = Some u \<longrightarrow> \<not> is_valid d"
proof (induction cs arbitrary: w)
  case Nil
  then show ?case by simp
next
  case (Cons c cs)
  show ?case
  proof (cases "is_valid c")
    case True
    with Cons.prems(1) obtain w1 where
      1: "balanced_Card_save (c\<lparr>is_valid := False\<rparr>) w = (Inr (), w1)" and
      2: "invalidate_cards cs w1 = (Inr x, w')"
      by (auto split: prod.splits sum.splits)
    from 1 have g: "gw_cards w1 = map (\<lambda>d. if c_uri d = c_uri c then c\<lparr>is_valid := False\<rparr> else d) (gw_cards w)"
      by (auto simp: card_save_eq split: option.splits)
    have "\<forall>d\<in>set (gw_cards w1). c_account d = Some u \<longrightarrow>
       \<not> is_valid d \<or> (\<exists>c\<in>set cs. is_valid c \<and> c_uri c = c_uri d)"
      unfolding g using Cons.prems(2) by auto
    from Cons.IH [OF 2 this] show ?thesis .
  next
    case False
    with Cons.prems have "invalidate_cards cs w = (Inr x, w')" by simp
    moreover have "\<forall>d\<in>set (gw_cards w). c_account d = Some u \<longrightarrow>
       \<not> is_valid d \<or> (\<exists>c\<in>set cs. is_valid c \<and> c_uri c = c_uri d)"
      using Cons.prems(2) False by auto
    ultimately show ?thesis by (rule Cons.IH)
  qed
qed

lemma invalidate_cards_nothing:
  "\<forall>c\<in>set cs. \<not> is_valid c \<Longrightarrow> invalidate_cards cs w = (Inr (), w)"
  by (induction cs) simp_all

lemma CLEAR_idem:
  "map (run_update (CLEAR p)) (map (run_update (CLEAR p)) ps) = map (run_update (CLEAR p)) ps"
  by (induction ps) simp_all

text \<open>Every run of \<^verbatim>\<open>clear\<close> on two unicodes, by its result.\<close>

lemma clear_run:
  assumes "clear (PyUnicode p) (PyUnicode u) w = (r, w')"
  shows "(\<forall>x. r = Inr x \<longrightarrow>
            emitted w w' =
              Gateway (Find u) # Gateway (ListCards u) #
              map (\<lambda>c. Gateway (SaveCard (c\<lparr>is_valid := False\<rparr>)))
                  (filter is_valid (filter (\<lambda>d. c_account d = Some u) (gw_cards w))) @
              [Db (CLEAR p)] \<and>
            participants w' = map (run_update (CLEAR p)) (participants w)) \<and>
         (\<forall>e. r = Inl e \<longrightarrow> participants w' = participants w \<and> filter is_db (emitted w w') = []) \<and>
         (gw_replies w = [] \<and> filter (\<lambda>a. uri a = u) (gw_accounts w) \<noteq> [] \<longrightarrow> r = Inr ())"
proof -
  obtain r1 w1 where f: "balanced_Account_find u w = (r1, w1)" by (cases "balanced_Account_find u w")
  note w1 = find_effect [OF f]
  show ?thesis
  proof (cases r1)
    case (Inl e)
    with assms f have "r = Inl e" "w' = w1" by (auto simp: clear_def)
    with w1 show ?thesis
      using f Inl by (auto simp: emitted_def find_eq Let_def next_reply_def split: option.splits list.splits)
  next
    case (Inr a)
    with f have ua: "uri a = u" by (simp add: find_uri)
    obtain r2 w2 where l: "balanced_Account_cards a w1 = (r2, w2)" by (cases "balanced_Account_cards a w1")
    then have w2: "w2 = w1\<lparr>gw_replies := tl (gw_replies w1), trace := trace w1 @ [Gateway (ListCards u)]\<rparr>"
      by (auto simp: cards_eq Let_def ua split: option.splits)
    show ?thesis
    proof (cases r2)
      case (Inl e)
      with assms f Inr l have "r = Inl e" "w' = w2" by (auto simp: clear_def)
      moreover from l Inl have "next_reply w1 \<noteq> None" by (auto simp: cards_eq Let_def split: option.splits)
      ultimately show ?thesis
        using w1 w2 by (auto simp: emitted_def next_reply_def split: list.splits)
    next
      case cs: (Inr cs)
      with l have cs_eq: "cs = filter (\<lambda>d. c_account d = Some u) (gw_cards w)"
        by (auto simp: cards_eq Let_def ua w1 split: option.splits)
      obtain r3 w3 where i: "invalidate_cards cs w2 = (r3, w3)" by (cases "invalidate_cards cs w2")
      show ?thesis
      proof (cases r3)
        case (Inl e)
        with assms f Inr l cs i have "r = Inl e" "w' = w3" by (auto simp: clear_def)
        moreover from invalidate_cards_Inl [of cs w2 e w3] i Inl obtain evs where
          "participants w3 = participants w2" "trace w3 = trace w2 @ evs" "filter is_db evs = []" by auto
        moreover from invalidate_cards_total [of w2 cs] i Inl have "gw_replies w2 \<noteq> []" by auto
        ultimately show ?thesis
          using w1 w2 by (auto simp: emitted_def)
      next
        case r3: (Inr x)
        with assms f Inr l cs i have "r = Inr ()" "w' = db_execute (CLEAR p) w3" by (auto simp: clear_def)
        moreover note invalidate_cards_Inr [of cs w2 x w3]
        ultimately show ?thesis
          using w1 w2 i r3 cs_eq by (auto simp: emitted_def db_execute_def)
      qed
    qed
  qed
qed

text \<open>After a run of \<^verbatim>\<open>clear\<close> that returns, the account has no valid card left.\<close>

lemma clear_Inr_state:
  assumes "clear (PyUnicode p) (PyUnicode u) w = (Inr x, w1)"
  shows "gw_accounts w1 = gw_accounts w \<and>
         (\<forall>d\<in>set (gw_cards w1). c_account d = Some u \<longrightarrow> \<not> is_valid d) \<and>
         filter (\<lambda>a. uri a = u) (gw_accounts w) \<noteq> []"
proof -
  from assms obtain a wa cs wb y wc where
    f: "balanced_Account_find u w = (Inr a, wa)" and
    l: "balanced_Account_cards a wa = (Inr cs, wb)" and
    i: "invalidate_cards cs wb = (Inr y, wc)" and
    e: "w1 = db_execute (CLEAR p) wc"
    by (auto simp: clear_def split: prod.splits sum.splits)
  from f have ua: "uri a = u" by (rule find_uri)
  from f have res: "filter (\<lambda>a. uri a = u) (gw_accounts w) \<noteq> []"
    by (auto simp: find_eq Let_def split: option.splits list.splits)
  from find_effect [OF f] have wa: "gw_accounts wa = gw_accounts w" "gw_cards wa = gw_cards w"
    by simp_all
  from l have wb: "gw_accounts wb = gw_accounts wa" "gw_cards wb = gw_cards wa"
    "cs = filter (\<lambda>d. c_account d = Some u) (gw_cards wa)"
    by (auto simp: cards_eq Let_def ua split: option.splits)
  have "\<forall>d\<in>set (gw_cards wb). c_account d = Some u \<longrightarrow>
       \<not> is_valid d \<or> (\<exists>c\<in>set cs. is_valid c \<and> c_uri c = c_uri d)"
    using wb by auto
  from invalidate_cards_all_invalid [OF i this] invalidate_cards_Inr [OF i] e wa wb res
  show ?thesis by (simp add: db_execute_def)
qed

lemma clear_no_valid_cards:
  assumes "clear (PyUnicode p) (PyUnicode u) w = (r, w')"
    and "filter is_valid (filter (\<lambda>d. c_account d = Some u) (gw_cards w)) = []"
  shows "filter is_card_save (emitted w w') = []"
proof -
  obtain r1 w1 where f: "balanced_Account_find u w = (r1, w1)" by (cases "balanced_Account_find u w")
  note w1 = find_effect [OF f]
  show ?thesis
  proof (cases r1)
    case (Inl e)
    with assms f have "w' = w1" by (auto simp: clear_def)
    with w1 show ?thesis by (simp add: emitted_def)
  next
    case (Inr a)
    with f have ua: "uri a = u" by (simp add: find_uri)
    obtain r2 w2 where l: "balanced_Account_cards a w1 = (r2, w2)" by (cases "balanced_Account_cards a w1")
    then have w2: "w2 = w1\<lparr>gw_replies := tl (gw_replies w1), trace := trace w1 @ [Gateway (ListCards u)]\<rparr>"
      by (auto simp: cards_eq Let_def ua split: option.splits)
    show ?thesis
    proof (cases r2)
      case (Inl e)
      with assms f Inr l have "w' = w2" by (auto simp: clear_def)
      with w1 w2 show ?thesis by (simp add: emitted_def)
    next
      case cs: (Inr cs)
      with l have "cs = filter (\<lambda>d. c_account d = Some u) (gw_cards w)"
        by (auto simp: cards_eq Let_def ua w1 split: option.splits)
      with assms(2) have "\<forall>c\<in>set cs. \<not> is_valid c" by (auto simp: filter_empty_conv)
      then have "invalidate_cards cs w2 = (Inr (), w2)" by (rule invalidate_cards_nothing)
      with assms f Inr l cs have "w' = db_execute (CLEAR p) w2" by (auto simp: clear_def)
      with w1 w2 show ?thesis by (simp add: emitted_def db_execute_def)
    qed
  qed
qed

text \<open>The example: both cards of alice are revoked, then her row is reset.\<close>

lemma clear_example:
  "clear (PyUnicode ''alice'') (PyUnicode ''/v1/accounts/A'') (world_linked [card_1, card_2] []) =
     (Inr (),
      \<lparr>gw_accounts = [account_A],
       gw_cards = [card_1\<lparr>is_valid := False\<rparr>, card_2\<lparr>is_valid := False\<rparr>],
       gw_replies = [],
       participants = [alice_new],
       trace = [Gateway (Find ''/v1/accounts/A''), Gateway (ListCards ''/v1/accounts/A''),
                Gateway (SaveCard (card_1\<lparr>is_valid := False\<rparr>)),
                Gateway (SaveCard (card_2\<lparr>is_valid := False\<rparr>)),
                Db (CLEAR ''alice'')]\<rparr>)"
  by (simp add: clear_def balanced_Account_find_def balanced_Account_cards_def
      balanced_Card_save_def gateway_def db_execute_def example_defs)

text \<open>
  C3. Every run of \<^verbatim>\<open>clear\<close> on a participant id and an account reference is one of
  these. If it returns, it has sent the find request and the listing of the account's
  cards, then one save per card of the listing that was valid, in the listing's order, each
  carrying the card with \<^verbatim>\<open>is_valid\<close> false, and no save for a card that was already
  invalid; after these it has executed the one statement that sets both columns of the
  participant to NULL. If it raises, it has executed no statement and the table is as
  before. It returns whenever the reference resolves and the gateway answers every request.
\<close>

theorem clear_invalidates_then_resets:
  assumes "clear (PyUnicode p) (PyUnicode u) w = (r, w')"
  shows "(\<forall>x. r = Inr x \<longrightarrow>
            emitted w w' =
              Gateway (Find u) # Gateway (ListCards u) #
              map (\<lambda>c. Gateway (SaveCard (c\<lparr>is_valid := False\<rparr>)))
                  (filter is_valid (filter (\<lambda>d. c_account d = Some u) (gw_cards w))) @
              [Db (CLEAR p)] \<and>
            participants w' = map (run_update (CLEAR p)) (participants w)) \<and>
         (\<forall>e. r = Inl e \<longrightarrow> participants w' = participants w \<and> filter is_db (emitted w w') = []) \<and>
         (gw_replies w = [] \<and> filter (\<lambda>a. uri a = u) (gw_accounts w) \<noteq> [] \<longrightarrow> r = Inr ())"
  using assms by (rule clear_run)

theorem clear_invalidates_then_resets_witness:
  "fst (clear (PyUnicode ''alice'') (PyUnicode ''/v1/accounts/A'') (world_linked [card_1, card_2] [])) =
     Inr () \<and>
   emitted (world_linked [card_1, card_2] [])
     (snd (clear (PyUnicode ''alice'') (PyUnicode ''/v1/accounts/A'') (world_linked [card_1, card_2] []))) =
     [Gateway (Find ''/v1/accounts/A''), Gateway (ListCards ''/v1/accounts/A''),
      Gateway (SaveCard (card_1\<lparr>is_valid := False\<rparr>)),
      Gateway (SaveCard (card_2\<lparr>is_valid := False\<rparr>)),
      Db (CLEAR ''alice'')] \<and>
   participants
     (snd (clear (PyUnicode ''alice'') (PyUnicode ''/v1/accounts/A'') (world_linked [card_1, card_2] []))) =
     [\<lparr>pid = ''alice'', balanced_account_uri = None, last_bill_result = None\<rparr>]"
proof -
  let ?w = "world_linked [card_1, card_2] []"
  let ?c = "clear (PyUnicode ''alice'') (PyUnicode ''/v1/accounts/A'') ?w"
  note t = clear_invalidates_then_resets [where p = "''alice''" and u = "''/v1/accounts/A''"
      and w = ?w, OF surjective_pairing]
  have h: "gw_replies ?w = [] \<and> filter (\<lambda>a. uri a = ''/v1/accounts/A'') (gw_accounts ?w) \<noteq> []"
    by (simp add: world_linked_def account_A_def)
  with t have r: "fst ?c = Inr ()" by blast
  with t have "emitted ?w (snd ?c) =
      Gateway (Find ''/v1/accounts/A'') # Gateway (ListCards ''/v1/accounts/A'') #
      map (\<lambda>c. Gateway (SaveCard (c\<lparr>is_valid := False\<rparr>)))
        (filter is_valid (filter (\<lambda>d. c_account d = Some ''/v1/accounts/A'') (gw_cards ?w))) @
      [Db (CLEAR ''alice'')]"
    and "participants (snd ?c) = map (run_update (CLEAR ''alice'')) (participants ?w)"
    by blast+
  with r show ?thesis
    by (simp add: world_linked_def card_1_def card_2_def alice_linked_def)
qed

text \<open>
  C6. After a run of \<^verbatim>\<open>clear\<close> that has returned, a second run with the same arguments
  leaves the participants table as it is (it writes NULL over NULL, or raises before
  writing) and sends no card save, whatever the gateway does; and when the gateway
  answers every request, the second run returns after the find request, the listing and
  the one statement. A second run that is given the reference now stored for the
  participant, \<^verbatim>\<open>None\<close>, changes nothing at all.
\<close>

theorem clear_twice:
  assumes "clear (PyUnicode p) (PyUnicode u) w = (Inr (), w1)"
    and "clear (PyUnicode p) (PyUnicode u) w1 = (r2, w2)"
  shows "participants w2 = participants w1 \<and>
         filter is_card_save (emitted w1 w2) = [] \<and>
         (gw_replies w1 = [] \<longrightarrow>
            r2 = Inr () \<and> emitted w1 w2 = [Gateway (Find u), Gateway (ListCards u), Db (CLEAR p)]) \<and>
         clear (PyUnicode p) PyNone w1 = (Inl TypeError, w1)"
proof -
  have n: "clear (PyUnicode p) PyNone w1 = (Inl TypeError, w1)"
    by (simp add: clear_def)
  note s = clear_Inr_state [OF assms(1)]
  from s have inv: "filter is_valid (filter (\<lambda>d. c_account d = Some u) (gw_cards w1)) = []"
    by (auto simp: filter_empty_conv)
  from clear_run [OF assms(1)] have p1: "participants w1 = map (run_update (CLEAR p)) (participants w)"
    by simp
  note e = clear_run [OF assms(2)]
  have p: "participants w2 = participants w1"
  proof (cases r2)
    case (Inl e')
    with e show ?thesis by simp
  next
    case (Inr x)
    with e have "participants w2 = map (run_update (CLEAR p)) (participants w1)" by simp
    with p1 show ?thesis by (simp add: CLEAR_idem)
  qed
  have c: "filter is_card_save (emitted w1 w2) = []"
    using assms(2) inv by (rule clear_no_valid_cards)
  have t: "gw_replies w1 = [] \<longrightarrow>
            r2 = Inr () \<and> emitted w1 w2 = [Gateway (Find u), Gateway (ListCards u), Db (CLEAR p)]"
    using e inv s by auto
  from p c t n show ?thesis by simp
qed

theorem clear_twice_witness:
  "clear (PyUnicode ''alice'') (PyUnicode ''/v1/accounts/A'') (world_linked [card_1, card_2] []) =
     (Inr (), world_cleared) \<and>
   map balanced_account_uri (participants world_cleared) = [None] \<and>
   fst (clear (PyUnicode ''alice'') (PyUnicode ''/v1/accounts/A'') world_cleared) = Inr () \<and>
   participants (snd (clear (PyUnicode ''alice'') (PyUnicode ''/v1/accounts/A'') world_cleared)) =
     participants world_cleared \<and>
   emitted world_cleared (snd (clear (PyUnicode ''alice'') (PyUnicode ''/v1/accounts/A'') world_cleared)) =
     [Gateway (Find ''/v1/accounts/A''), Gateway (ListCards ''/v1/accounts/A''), Db (CLEAR ''alice'')]"
proof -
  have 1: "clear (PyUnicode ''alice'') (PyUnicode ''/v1/accounts/A'') (world_linked [card_1, card_2] []) =
     (Inr (), world_cleared)"
    by (simp add: world_cleared_def clear_example)
  have 2: "gw_replies world_cleared = []" "map balanced_account_uri (participants world_cleared) = [None]"
    by (simp_all add: world_cleared_def clear_example alice_new_def)
  from clear_twice [OF 1 surjective_pairing] 1 2 show ?thesis by simp
qed

text \<open>
  C10. \<^verbatim>\<open>clear\<close> requires a non-null account reference: for every participant id and every
  world, \<^verbatim>\<open>clear(participant_id, None)\<close> raises \<^verbatim>\<open>TypeError\<close> from the type check and leaves
  the world as it was: no gateway request and no database statement is issued.
\<close>

theorem clear_None_TypeError:
  "clear participant_id PyNone w = (Inl TypeError, w)"
  by (cases participant_id) (simp_all add: clear_def)

subsection \<open>Account\<close>

text \<open>The first card of the descending order is one of the cards, and none is more recent.\<close>

lemma latest_card:
  assumes "rev (sort_key f xs) = c # rest"
  shows "c \<in> set xs \<and> (\<forall>d\<in>set xs. f d \<le> f c) \<and> sorted_wrt (\<lambda>x y. f y \<le> f x) (c # rest)"
proof -
  have "sorted (map f (sort_key f xs))" by (rule sorted_sort_key)
  then have "sorted_wrt (\<lambda>x y. f x \<le> f y) (sort_key f xs)" by (simp only: sorted_map)
  then have "sorted_wrt (\<lambda>x y. f y \<le> f x) (rev (sort_key f xs))" by (simp only: sorted_wrt_rev)
  then have s: "sorted_wrt (\<lambda>x y. f y \<le> f x) (c # rest)" by (simp only: assms)
  have "set (c # rest) = set (rev (sort_key f xs))" by (simp only: assms)
  then have m: "set xs = insert c (set rest)" by simp
  from s have "\<forall>d\<in>set rest. f d \<le> f c" by simp
  with m have "\<forall>d\<in>set xs. f d \<le> f c" by simp
  with s m show ?thesis by simp
qed

text \<open>\<^verbatim>\<open>_get\<close> at a gateway that answers every request.\<close>

lemma Account_get_answered:
  assumes "gw_replies w = []"
  shows "Account_get \<lparr>p_account = Some a\<rparr> name w =
     (Inr (case rev (sort_key created_at (filter (\<lambda>d. c_account d = Some (uri a)) (gw_cards w))) of
             [] \<Rightarrow> PyUnicode []
           | c # _ \<Rightarrow> empty_if_None (getattr_card c name)),
      w\<lparr>trace := trace w @ [Gateway (ListCards (uri a))]\<rparr>)"
  using assms
  by (simp add: Account_get_def balanced_Account_cards_def gateway_def split: list.splits)

lemma getitem_last4_answered:
  assumes "gw_replies w = []"
    and "rev (sort_key created_at (filter (\<lambda>d. c_account d = Some (uri a)) (gw_cards w))) = c # rest"
  shows "fst (Account_getitem \<lparr>p_account = Some a\<rparr> ''last4'' w) =
     (let out = empty_if_None (getattr_card c ''last_four'')
      in if truthy out then unicode_add ''************'' out else Inr out)"
  using assms by (simp add: Account_getitem_def Account_get_answered Let_def)

lemma getitem_expiry_answered:
  assumes "gw_replies w = []"
  shows "fst (Account_getitem \<lparr>p_account = Some a\<rparr> ''expiry'' w) =
     (case rev (sort_key created_at (filter (\<lambda>d. c_account d = Some (uri a)) (gw_cards w))) of
        [] \<Rightarrow> Inr (PyUnicode [])
      | c # _ \<Rightarrow>
          (let month = empty_if_None (getattr_card c ''expiration_month'');
               year = empty_if_None (getattr_card c ''expiration_year'')
           in if truthy month \<and> truthy year then format_d_d month year else Inr (PyUnicode [])))"
proof -
  let ?w1 = "w\<lparr>trace := trace w @ [Gateway (ListCards (uri a))]\<rparr>"
  from assms have r: "gw_replies ?w1 = []" by simp
  have c: "gw_cards ?w1 = gw_cards w" by simp
  show ?thesis
    by (simp add: Account_getitem_def Account_get_answered [OF assms] Account_get_answered [OF r] c Let_def
        split: list.splits)
qed

lemma string_of_int_examples:
  "string_of_int 12 = ''12''" "string_of_int 2030 = ''2030''"
  by (simp_all add: string_of_int_def string_of_nat.simps)

text \<open>
  C7. The wrapper built on a null reference holds no account and the world is as it was
  (no gateway request); on it, \<^verbatim>\<open>id\<close> is \<^verbatim>\<open>None\<close>, \<^verbatim>\<open>last4\<close> and \<^verbatim>\<open>expiry\<close> are the
  empty string, again with the world unchanged.
\<close>

theorem view_of_null_reference:
  "Account_init None w = (Inr \<lparr>p_account = None\<rparr>, w) \<and>
   Account_getitem \<lparr>p_account = None\<rparr> ''id'' w = (Inr PyNone, w) \<and>
   Account_getitem \<lparr>p_account = None\<rparr> ''last4'' w = (Inr (PyUnicode []), w) \<and>
   Account_getitem \<lparr>p_account = None\<rparr> ''expiry'' w = (Inr (PyUnicode []), w)"
  by (simp add: Account_init_def Account_getitem_def Account_get_def)

text \<open>
  C8. For an account with at least one card (so also with two cards of distinct creation
  times), at a gateway that answers: the cards in descending order of creation time begin
  with a card \<open>c\<close> of the account than which none is more recent, every attribute that
  \<^verbatim>\<open>_get\<close> reads is read from \<open>c\<close>, and \<^verbatim>\<open>last4\<close> and \<^verbatim>\<open>expiry\<close> are computed from the
  attributes of \<open>c\<close> alone.
\<close>

theorem view_shows_latest_card:
  assumes "gw_replies w = []"
    and "filter (\<lambda>d. c_account d = Some (uri a)) (gw_cards w) = cards"
    and "cards \<noteq> []"
  shows "\<exists>c rest. rev (sort_key created_at cards) = c # rest \<and>
           c \<in> set cards \<and> (\<forall>d\<in>set cards. created_at d \<le> created_at c) \<and>
           sorted_wrt (\<lambda>x y. created_at y \<le> created_at x) (c # rest) \<and>
           (\<forall>name. fst (Account_get \<lparr>p_account = Some a\<rparr> name w) =
                     Inr (empty_if_None (getattr_card c name))) \<and>
           fst (Account_getitem \<lparr>p_account = Some a\<rparr> ''last4'' w) =
             (let out = empty_if_None (getattr_card c ''last_four'')
              in if truthy out then unicode_add ''************'' out else Inr out) \<and>
           fst (Account_getitem \<lparr>p_account = Some a\<rparr> ''expiry'' w) =
             (let month = empty_if_None (getattr_card c ''expiration_month'');
                  year = empty_if_None (getattr_card c ''expiration_year'')
              in if truthy month \<and> truthy year then format_d_d month year else Inr (PyUnicode []))"
proof -
  have "length (rev (sort_key created_at cards)) = length cards" by simp
  with assms(3) have "rev (sort_key created_at cards) \<noteq> []" by fastforce
  then obtain c rest where cr: "rev (sort_key created_at cards) = c # rest"
    by (cases "rev (sort_key created_at cards)") auto
  note l = latest_card [OF cr]
  have g: "\<forall>name. fst (Account_get \<lparr>p_account = Some a\<rparr> name w) =
                     Inr (empty_if_None (getattr_card c name))"
    by (simp add: Account_get_answered [OF assms(1)] assms(2) cr)
  from cr assms(2) have cr': "rev (sort_key created_at
      (filter (\<lambda>d. c_account d = Some (uri a)) (gw_cards w))) = c # rest" by simp
  note l4 = getitem_last4_answered [OF assms(1) cr']
  have ex: "fst (Account_getitem \<lparr>p_account = Some a\<rparr> ''expiry'' w) =
             (let month = empty_if_None (getattr_card c ''expiration_month'');
                  year = empty_if_None (getattr_card c ''expiration_year'')
              in if truthy month \<and> truthy year then format_d_d month year else Inr (PyUnicode []))"
    by (simp add: getitem_expiry_answered [OF assms(1)] cr')
  from cr l g l4 ex show ?thesis by blast
qed

theorem view_shows_latest_card_witness:
  "rev (sort_key created_at [card_1, card_2]) = [card_2, card_1] \<and>
   created_at card_1 = 1 \<and> created_at card_2 = 2 \<and>
   fst (Account_getitem \<lparr>p_account = Some account_A\<rparr> ''last4'' (world_linked [card_1, card_2] [])) =
     Inr (PyUnicode ''************4242'') \<and>
   fst (Account_getitem \<lparr>p_account = Some account_A\<rparr> ''expiry'' (world_linked [card_1, card_2] [])) =
     Inr (PyUnicode ''12/2030'')"
proof -
  have 1: "gw_replies (world_linked [card_1, card_2] []) = []"
    by (simp add: world_linked_def)
  have 2: "filter (\<lambda>d. c_account d = Some (uri account_A)) (gw_cards (world_linked [card_1, card_2] [])) =
      [card_1, card_2]"
    by (simp add: example_defs)
  have 3: "[card_1, card_2] \<noteq> []" by simp
  have 4: "rev (sort_key created_at [card_1, card_2]) = [card_2, card_1]"
    by (simp add: card_1_def card_2_def)
  from view_shows_latest_card [OF 1 2 3] obtain c rest where
    c: "rev (sort_key created_at [card_1, card_2]) = c # rest" and
    l: "fst (Account_getitem \<lparr>p_account = Some account_A\<rparr> ''last4'' (world_linked [card_1, card_2] [])) =
             (let out = empty_if_None (getattr_card c ''last_four'')
              in if truthy out then unicode_add ''************'' out else Inr out)" and
    e: "fst (Account_getitem \<lparr>p_account = Some account_A\<rparr> ''expiry'' (world_linked [card_1, card_2] [])) =
             (let month = empty_if_None (getattr_card c ''expiration_month'');
                  year = empty_if_None (getattr_card c ''expiration_year'')
              in if truthy month \<and> truthy year then format_d_d month year else Inr (PyUnicode []))"
    by blast
  from c 4 have "c = card_2" by simp
  with l e 4 show ?thesis
    by (simp add: card_1_def card_2_def getattr_card_def empty_if_None_def format_d_d_def
        string_of_int_examples)
qed

text \<open>
  C9. At a gateway that answers, \<^verbatim>\<open>expiry\<close> of an account without cards is the empty
  string. Otherwise, with \<open>c\<close> the most recent card: if the expiration month or the
  expiration year of \<open>c\<close> is missing, \<^verbatim>\<open>None\<close> or empty, \<^verbatim>\<open>expiry\<close> is the empty string; if
  both are integers other than zero, \<^verbatim>\<open>expiry\<close> is the month, a slash and the year, in
  decimal; and whenever \<^verbatim>\<open>expiry\<close> is a value other than the empty string, both attributes
  are present and true, and the value is their two decimal texts around a slash. Without
  an account \<^verbatim>\<open>expiry\<close> is the empty string as well.
\<close>

theorem expiry_never_partial:
  assumes "gw_replies w = []"
  shows "(case rev (sort_key created_at (filter (\<lambda>d. c_account d = Some (uri a)) (gw_cards w))) of
           [] \<Rightarrow> fst (Account_getitem \<lparr>p_account = Some a\<rparr> ''expiry'' w) = Inr (PyUnicode [])
         | c # rest \<Rightarrow>
             (let month = map_of (attrs c) ''expiration_month'';
                  year = map_of (attrs c) ''expiration_year'';
                  expiry = fst (Account_getitem \<lparr>p_account = Some a\<rparr> ''expiry'' w)
              in ((month \<in> {None, Some PyNone, Some (PyStr []), Some (PyUnicode [])} \<or>
                   year \<in> {None, Some PyNone, Some (PyStr []), Some (PyUnicode [])}) \<longrightarrow> expiry = Inr (PyUnicode [])) \<and>
                 (\<forall>m y. month = Some (PyInt m) \<and> year = Some (PyInt y) \<and> m \<noteq> 0 \<and> y \<noteq> 0 \<longrightarrow>
                    expiry = Inr (PyUnicode (string_of_int m @ ''/'' @ string_of_int y))) \<and>
                 (\<forall>v. expiry = Inr v \<and> v \<noteq> PyUnicode [] \<longrightarrow>
                    (\<exists>mv yv ms ys. month = Some mv \<and> year = Some yv \<and> truthy mv \<and> truthy yv \<and>
                       format_d mv = Inr ms \<and> format_d yv = Inr ys \<and> v = PyUnicode (ms @ ''/'' @ ys))))) \<and>
         fst (Account_getitem \<lparr>p_account = None\<rparr> ''expiry'' w) = Inr (PyUnicode [])"
proof -
  have n: "fst (Account_getitem \<lparr>p_account = None\<rparr> ''expiry'' w) = Inr (PyUnicode [])"
    by (simp add: Account_getitem_def Account_get_def)
  show ?thesis
  proof (cases "rev (sort_key created_at (filter (\<lambda>d. c_account d = Some (uri a)) (gw_cards w)))")
    case Nil
    with n show ?thesis by (simp add: getitem_expiry_answered [OF assms])
  next
    case (Cons c rest)
    have e: "fst (Account_getitem \<lparr>p_account = Some a\<rparr> ''expiry'' w) =
        (let month = empty_if_None (getattr_card c ''expiration_month'');
             year = empty_if_None (getattr_card c ''expiration_year'')
         in if truthy month \<and> truthy year then format_d_d month year else Inr (PyUnicode []))"
      by (simp add: getitem_expiry_answered [OF assms] Cons)
    have gm: "getattr_card c ''expiration_month'' =
        (case map_of (attrs c) ''expiration_month'' of None \<Rightarrow> PyUnicode [] | Some v \<Rightarrow> v)"
      and gy: "getattr_card c ''expiration_year'' =
        (case map_of (attrs c) ''expiration_year'' of None \<Rightarrow> PyUnicode [] | Some v \<Rightarrow> v)"
      by (simp_all add: getattr_card_def)
    have 1: "(map_of (attrs c) ''expiration_month'' \<in> {None, Some PyNone, Some (PyStr []), Some (PyUnicode [])} \<or>
              map_of (attrs c) ''expiration_year'' \<in> {None, Some PyNone, Some (PyStr []), Some (PyUnicode [])}) \<longrightarrow>
             fst (Account_getitem \<lparr>p_account = Some a\<rparr> ''expiry'' w) = Inr (PyUnicode [])"
      by (auto simp: e gm gy empty_if_None_def Let_def)
    have 2: "\<forall>m y. map_of (attrs c) ''expiration_month'' = Some (PyInt m) \<and>
                   map_of (attrs c) ''expiration_year'' = Some (PyInt y) \<and> m \<noteq> 0 \<and> y \<noteq> 0 \<longrightarrow>
               fst (Account_getitem \<lparr>p_account = Some a\<rparr> ''expiry'' w) =
                 Inr (PyUnicode (string_of_int m @ ''/'' @ string_of_int y))"
      by (auto simp: e gm gy empty_if_None_def Let_def format_d_d_def)
    have 3: "\<forall>v. fst (Account_getitem \<lparr>p_account = Some a\<rparr> ''expiry'' w) = Inr v \<and> v \<noteq> PyUnicode [] \<longrightarrow>
               (\<exists>mv yv ms ys. map_of (attrs c) ''expiration_month'' = Some mv \<and>
                   map_of (attrs c) ''expiration_year'' = Some yv \<and> truthy mv \<and> truthy yv \<and>
                   format_d mv = Inr ms \<and> format_d yv = Inr ys \<and> v = PyUnicode (ms @ ''/'' @ ys))"
      by (auto simp: e gm gy empty_if_None_def Let_def format_d_d_def
          split: option.splits if_splits sum.splits)
    from 1 2 3 n Cons show ?thesis by (simp add: Let_def)
  qed
qed

theorem expiry_never_partial_witness:
  "map_of (attrs card_1) ''expiration_month'' = Some PyNone \<and>
   map_of (attrs card_1) ''expiration_year'' = Some (PyInt 2025) \<and>
   fst (Account_getitem \<lparr>p_account = Some account_A\<rparr> ''expiry'' (world_linked [card_1] [])) =
     Inr (PyUnicode []) \<and>
   fst (Account_getitem \<lparr>p_account = Some account_A\<rparr> ''expiry'' (world_linked [card_2] [])) =
     Inr (PyUnicode ''12/2030'')"
proof -
  have r: "gw_replies (world_linked cs []) = []" for cs
    by (simp add: world_linked_def)
  have f: "rev (sort_key created_at (filter (\<lambda>d. c_account d = Some (uri account_A))
      (gw_cards (world_linked [card_1] [])))) = [card_1]"
    "rev (sort_key created_at (filter (\<lambda>d. c_account d = Some (uri account_A))
      (gw_cards (world_linked [card_2] [])))) = [card_2]"
    by (simp_all add: example_defs)
  have a1: "map_of (attrs card_1) ''expiration_month'' = Some PyNone"
    "map_of (attrs card_1) ''expiration_year'' = Some (PyInt 2025)"
    by (simp_all add: card_1_def)
  have a2: "map_of (attrs card_2) ''expiration_month'' = Some (PyInt 12)"
    "map_of (attrs card_2) ''expiration_year'' = Some (PyInt 2030)"
    by (simp_all add: card_2_def)
  have m1: "Some PyNone \<in> {None, Some PyNone, Some (PyStr []), Some (PyUnicode [])} \<or>
      Some (PyInt 2025) \<in> {None, Some PyNone, Some (PyStr []), Some (PyUnicode [])}" by simp
  from expiry_never_partial [OF r, of account_A "[card_1]", unfolded f list.case Let_def a1] m1
  have 1: "fst (Account_getitem \<lparr>p_account = Some account_A\<rparr> ''expiry'' (world_linked [card_1] [])) =
     Inr (PyUnicode [])"
    by blast
  from expiry_never_partial [OF r, of account_A "[card_2]", unfolded f list.case Let_def a2]
  have "Some (PyInt 12) = Some (PyInt 12) \<and> Some (PyInt 2030) = Some (PyInt 2030) \<and>
        (12::int) \<noteq> 0 \<and> (2030::int) \<noteq> 0 \<longrightarrow>
      fst (Account_getitem \<lparr>p_account = Some account_A\<rparr> ''expiry'' (world_linked [card_2] [])) =
        Inr (PyUnicode (string_of_int 12 @ ''/'' @ string_of_int 2030))"
    by blast
  then have 2: "fst (Account_getitem \<lparr>p_account = Some account_A\<rparr> ''expiry'' (world_linked [card_2] [])) =
     Inr (PyUnicode ''12/2030'')"
    by (simp add: string_of_int_examples)
  from a1 1 2 show ?thesis by simp
qed

end
